theory Spec2Isabelle
  imports Complex_Main "HOL-Library.Multiset" "HOL-Library.Word"
begin

section \<open>Errors raised by the modelled Python code\<close>

text \<open>
  Every exception the modelled functions can raise is a value of \<open>error\<close>; a function
  that can raise returns \<open>error + 'a\<close>, with \<open>Inl\<close> for the exception.
\<close>

datatype error =
    ValueError string
  | IndexError
  | ZeroDivisionError

text \<open>
  Python and numpy indexing \<open>xs[i]\<close>: a negative index counts from the end, an index
  outside \<open>-len \<dots> len-1\<close> raises IndexError.
\<close>

definition np_getitem :: "'a list \<Rightarrow> int \<Rightarrow> error + 'a" where
  "np_getitem xs i =
     (if 0 \<le> i \<and> i < int (length xs) then Inr (xs ! nat i)
      else if i < 0 \<and> - int (length xs) \<le> i then Inr (xs ! nat (int (length xs) + i))
      else Inl IndexError)"

section \<open>Convergence diagnostic: zero crossings and endpoints (pipelines/entropy.py)\<close>

text \<open>
  Floating-point values are modelled by real numbers (exact arithmetic).
  \<^verbatim>\<open>np.sign\<close> maps a number to -1, 0 or 1; \<^verbatim>\<open>np.diff\<close> is the list of
  consecutive differences; \<^verbatim>\<open>np.where(a)[0]\<close> is the increasing list of the
  positions whose entry is not zero.
\<close>

definition np_sign :: "real \<Rightarrow> real" where
  "np_sign x = (if x < 0 then - 1 else if x = 0 then 0 else 1)"

fun np_diff :: "real list \<Rightarrow> real list" where
  "np_diff (x # y # xs) = (y - x) # np_diff (y # xs)"
| "np_diff [x] = []"
| "np_diff [] = []"

definition np_where :: "real list \<Rightarrow> nat list" where
  "np_where xs = filter (\<lambda>i. xs ! i \<noteq> 0) [0..<length xs]"

text \<open>
  The offsets of the crossings of one angular-coefficient series,
  \<^verbatim>\<open>np.where(np.diff(np.sign(ac)))[0]\<close>, and the crossings mapped to sample indices,
  \<^verbatim>\<open>(options.window + np.where(np.diff(np.sign(ac)))[0])*entropy_interval\<close>.
\<close>

definition crossing_offsets :: "real list \<Rightarrow> nat list" where
  "crossing_offsets ac = np_where (np_diff (map np_sign ac))"

definition zero_crossings :: "int \<Rightarrow> int \<Rightarrow> real list \<Rightarrow> int list" where
  "zero_crossings window entropy_interval ac =
     map (\<lambda>c. (window + int c) * entropy_interval) (crossing_offsets ac)"

text \<open>
  The loop over the runs:
  \<^verbatim>\<open>
  endpoints = []
  conv_not_reached_flag = False
  for zc in zero_crossings:
      try:
          endpoints.append(zc[options.zero_crossings])
      except IndexError:
          conv_not_reached_flag = True
  \<close>
  The state is the pair of \<open>endpoints\<close> and \<open>conv_not_reached_flag\<close>.
\<close>

fun endpoint_loop :: "int \<Rightarrow> int list list \<Rightarrow> int list \<times> bool \<Rightarrow> int list \<times> bool" where
  "endpoint_loop Z [] st = st"
| "endpoint_loop Z (zc # zcs) (endpoints, flag) =
     (case np_getitem zc Z of
        Inr e \<Rightarrow> endpoint_loop Z zcs (endpoints @ [e], flag)
      | Inl err \<Rightarrow> endpoint_loop Z zcs (endpoints, True))"

definition find_endpoints :: "int \<Rightarrow> int \<Rightarrow> int \<Rightarrow> real list list \<Rightarrow> int list \<times> bool" where
  "find_endpoints Z window entropy_interval ang_coeff =
     endpoint_loop Z (map (zero_crossings window entropy_interval) ang_coeff) ([], False)"

section \<open>Prior elicitation (utils.py, get\_priors)\<close>

text \<open>
  Arrays of floats are lists of reals (exact arithmetic). A value that numpy computes
  without raising but that is not a finite number (\<^verbatim>\<open>nan\<close> from \<open>0/0\<close> or from
  a mean or covariance over too few observations, \<^verbatim>\<open>inf\<close> from \<open>x/0\<close>) is
  \<open>None\<close> in the type \<open>npfloat\<close>; arithmetic propagates it.
\<close>

type_synonym npfloat = "real option"

type_synonym bounds = "(real \<times> real) list"

definition nf_mul :: "npfloat \<Rightarrow> npfloat \<Rightarrow> npfloat" where
  "nf_mul x y = (case x of None \<Rightarrow> None | Some a \<Rightarrow> (case y of None \<Rightarrow> None | Some b \<Rightarrow> Some (a * b)))"

definition nf_div :: "npfloat \<Rightarrow> npfloat \<Rightarrow> npfloat" where
  "nf_div x y =
     (case x of None \<Rightarrow> None
      | Some a \<Rightarrow> (case y of None \<Rightarrow> None | Some b \<Rightarrow> if b = 0 then None else Some (a / b)))"

definition nf_sqrt :: "npfloat \<Rightarrow> npfloat" where
  "nf_sqrt x = (case x of None \<Rightarrow> None | Some a \<Rightarrow> if a < 0 then None else Some (sqrt a))"

definition nf_minimum :: "npfloat \<Rightarrow> real \<Rightarrow> npfloat" where
  "nf_minimum x c = (case x of None \<Rightarrow> None | Some a \<Rightarrow> Some (min a c))"

text \<open>
  \<^verbatim>\<open>np.mean\<close> of a one-dimensional array (nan for an empty one), the column means
  \<^verbatim>\<open>np.mean(a, axis = 0)\<close> of an array of shape \<open>(N, ndim)\<close>, and \<^verbatim>\<open>np.cov(a.T)\<close>
  of such an array: the unbiased empirical covariance of the \<open>N\<close> rows, a \<open>ndim \<times> ndim\<close>
  matrix, every entry nan when there are fewer than two rows (numpy divides by
  \<open>N - 1\<close>, warns and returns nan; it does not raise).
\<close>

definition np_mean :: "real list \<Rightarrow> npfloat" where
  "np_mean xs = (if xs = [] then None else Some (sum_list xs / real (length xs)))"

definition column :: "real list list \<Rightarrow> nat \<Rightarrow> real list" where
  "column rows j = map (\<lambda>r. r ! j) rows"

definition column_means :: "nat \<Rightarrow> real list list \<Rightarrow> npfloat list" where
  "column_means ndim rows = map (\<lambda>j. np_mean (column rows j)) [0..<ndim]"

definition avg :: "real list \<Rightarrow> real" where
  "avg xs = sum_list xs / real (length xs)"

definition cov_entry :: "real list list \<Rightarrow> nat \<Rightarrow> nat \<Rightarrow> real" where
  "cov_entry rows i j =
     sum_list (map (\<lambda>r. (r ! i - avg (column rows i)) * (r ! j - avg (column rows j))) rows)
       / real (length rows - 1)"

definition np_cov :: "nat \<Rightarrow> real list list \<Rightarrow> npfloat list list" where
  "np_cov ndim rows =
     map (\<lambda>i. map (\<lambda>j. if length rows < 2 then None else Some (cov_entry rows i j)) [0..<ndim])
       [0..<ndim]"

text \<open>
  numpy broadcasting of two one-dimensional arrays in an elementwise operation: equal
  lengths pair up, a length-one array is repeated, anything else raises ValueError.
\<close>

definition broadcast_pairs :: "'a list \<Rightarrow> 'b list \<Rightarrow> error + ('a \<times> 'b) list" where
  "broadcast_pairs xs ys =
     (if length xs = length ys then Inr (zip xs ys)
      else if length xs = 1 then Inr (map (\<lambda>y. (xs ! 0, y)) ys)
      else if length ys = 1 then Inr (map (\<lambda>x. (x, ys ! 0)) xs)
      else Inl (ValueError ''operands could not be broadcast together''))"

text \<open>
  The degrees of freedom:
  \<^verbatim>\<open>
  if df is not None and df > dim+2:
      df_out = df
  else:
      df_out = dim+2
  \<close>
\<close>

definition df_out_of :: "nat \<Rightarrow> real option \<Rightarrow> real" where
  "df_out_of ndim df =
     (case df of
        Some v \<Rightarrow> if v > real (ndim + 2) then v else real (ndim + 2)
      | None \<Rightarrow> real (ndim + 2))"

text \<open>
  The test on an explicit mean,
  \<^verbatim>\<open>np.prod(bounds[:,0] < mean) & np.prod(mean < bounds[:,1])\<close>: each product is 1
  when every comparison holds and 0 otherwise.
\<close>

definition mean_inside :: "bounds \<Rightarrow> real list \<Rightarrow> error + bool" where
  "mean_inside bounds mean =
     (case broadcast_pairs (map fst bounds) mean of
        Inl e \<Rightarrow> Inl e
      | Inr los \<Rightarrow>
          (case broadcast_pairs mean (map snd bounds) of
             Inl e \<Rightarrow> Inl e
           | Inr his \<Rightarrow> Inr (list_all (\<lambda>(l, m). l < m) los \<and> list_all (\<lambda>(m, h). m < h) his)))"

text \<open>
  The location. The coordinate transform \<^verbatim>\<open>transform_to_probit\<close> (module
  \<^verbatim>\<open>figaro.transform\<close>) is not part of the sources; it is the parameter \<open>tp\<close>, taking a
  point and the bounds to the transformed point. It is applied to an array of points row
  by row.
  \<^verbatim>\<open>
  if mean is not None:
      mean = np.atleast_1d(mean)
      if not np.prod(bounds[:,0] < mean) & np.prod(mean < bounds[:,1]):
          raise ValueError("Mean is outside of the given bounds")
      mu_out = transform_to_probit(mean, bounds)
  elif samples is not None:
      mu_out = np.atleast_1d(np.mean(probit_samples, axis = 0))
  else:
      mu_out = np.zeros(dim)
  \<close>
\<close>

definition mu_out_of ::
  "(real list \<Rightarrow> bounds \<Rightarrow> real list) \<Rightarrow> bounds \<Rightarrow> real list list option \<Rightarrow> real list option
     \<Rightarrow> error + npfloat list" where
  "mu_out_of tp bounds probit_samples mean =
     (case mean of
        Some m \<Rightarrow>
          (case mean_inside bounds m of
             Inl e \<Rightarrow> Inl e
           | Inr inside \<Rightarrow>
               if \<not> inside then Inl (ValueError ''Mean is outside of the given bounds'')
               else Inr (map Some (tp m bounds)))
      | None \<Rightarrow>
          (case probit_samples of
             Some ps \<Rightarrow> Inr (column_means (length bounds) ps)
           | None \<Rightarrow> Inr (replicate (length bounds) (Some 0))))"

text \<open>
  \<^verbatim>\<open>np.identity(dim)*std**2\<close>: \<open>std\<close> is a scalar (a list of length one here) or an
  array; the product broadcasts the squares along the rows of the identity.
\<close>

definition std_cov :: "nat \<Rightarrow> real list \<Rightarrow> error + real list list" where
  "std_cov ndim std =
     (if length std = ndim then
        Inr (map (\<lambda>i. map (\<lambda>j. if i = j then (std ! j)\<^sup>2 else 0) [0..<ndim]) [0..<ndim])
      else if length std = 1 then
        Inr (map (\<lambda>i. map (\<lambda>j. if i = j then (std ! 0)\<^sup>2 else 0) [0..<ndim]) [0..<ndim])
      else if ndim = 1 then Inr [map (\<lambda>s. s\<^sup>2) std]
      else Inl (ValueError ''operands could not be broadcast together''))"

text \<open>
  The covariance derived from the samples:
  \<^verbatim>\<open>
  L_out = np.atleast_2d(np.cov(probit_samples.T))/9
  diag  = np.sqrt(np.diag(L_out))
  stds  = np.minimum(diag, 0.2)
  L_out = L_out*np.outer(stds, stds)/np.outer(diag, diag)
  \<close>
\<close>

definition samples_cov :: "nat \<Rightarrow> real list list \<Rightarrow> npfloat list list" where
  "samples_cov ndim probit_samples =
     (let L = map (map (\<lambda>c. nf_div c (Some 9))) (np_cov ndim probit_samples);
          diag = map (\<lambda>i. nf_sqrt (L ! i ! i)) [0..<ndim];
          stds = map (\<lambda>d. nf_minimum d (2 / 10)) diag
      in map (\<lambda>i. map (\<lambda>j.
               nf_div (nf_mul (L ! i ! j) (nf_mul (stds ! i) (stds ! j)))
                      (nf_mul (diag ! i) (diag ! j))) [0..<ndim]) [0..<ndim])"

text \<open>
  The Monte-Carlo re-estimation. The sampler \<^verbatim>\<open>mn(mean, cov).rvs(size)\<close> of scipy is
  the parameter \<open>rvs\<close>: it raises or returns \<open>size\<close> points.
  \<^verbatim>\<open>
  ss = mn(np.mean(bounds, axis = -1), L_out).rvs(10000)
  if dim == 1:
      ss = np.atleast_2d(ss).T
  # Keeping only samples within bounds
  ss = ss[np.where((np.prod(bounds[:,0] < ss, axis = 1) & np.prod(ss < bounds[:,1], axis = 1)))]
  probit_samples = transform_to_probit(ss, bounds)
  L_out = np.atleast_2d(np.cov(probit_samples.T))
  \<close>
\<close>

definition in_bounds :: "bounds \<Rightarrow> real list \<Rightarrow> bool" where
  "in_bounds bounds s = list_all (\<lambda>(b, x). fst b < x \<and> x < snd b) (zip bounds s)"

definition box_centre :: "bounds \<Rightarrow> real list" where
  "box_centre bounds = map (\<lambda>b. (fst b + snd b) / 2) bounds"

definition retained :: "bounds \<Rightarrow> real list list \<Rightarrow> real list list" where
  "retained bounds ss = filter (in_bounds bounds) ss"

definition mc_cov ::
  "(real list \<Rightarrow> bounds \<Rightarrow> real list) \<Rightarrow> (real list \<Rightarrow> real list list \<Rightarrow> nat \<Rightarrow> error + real list list)
     \<Rightarrow> bounds \<Rightarrow> real list list \<Rightarrow> error + npfloat list list" where
  "mc_cov tp rvs bounds L =
     (case rvs (box_centre bounds) L 10000 of
        Inl e \<Rightarrow> Inl e
      | Inr ss \<Rightarrow> Inr (np_cov (length bounds) (map (\<lambda>s. tp s bounds) (retained bounds ss))))"

text \<open>
  The whole function (\<open>ndim\<close> is the \<^verbatim>\<open>dim\<close> of the source). \<open>bounds\<close> is the array
  after \<^verbatim>\<open>np.atleast_2d\<close>, one \<open>(min, max)\<close> pair per dimension; \<open>samples\<close> is an array of shape \<open>(N, ndim)\<close>; \<open>mean\<close>
  is the array after \<^verbatim>\<open>np.atleast_1d\<close>. The result is \<open>(k, L, df, mu)\<close>. The steps
  run in the order of the source, so the first exception raised is the one returned.
\<close>

definition get_priors ::
  "(real list \<Rightarrow> bounds \<Rightarrow> real list) \<Rightarrow> (real list \<Rightarrow> real list list \<Rightarrow> nat \<Rightarrow> error + real list list)
     \<Rightarrow> bounds \<Rightarrow> real list list option \<Rightarrow> real list option \<Rightarrow> real list option
     \<Rightarrow> real list list option \<Rightarrow> real option \<Rightarrow> real option
     \<Rightarrow> error + (real \<times> npfloat list list \<times> real \<times> npfloat list)" where
  "get_priors tp rvs bounds samples mean std cov df k =
     (let ndim = length bounds;
          probit_samples = map_option (map (\<lambda>s. tp s bounds)) samples;
          df_out = df_out_of ndim df;
          k_out = (case k of Some v \<Rightarrow> v | None \<Rightarrow> 1 / 100)
      in case mu_out_of tp bounds probit_samples mean of
           Inl e \<Rightarrow> Inl e
         | Inr mu_out \<Rightarrow>
             (case cov of
                Some c \<Rightarrow>
                  (case mc_cov tp rvs bounds c of
                     Inl e \<Rightarrow> Inl e
                   | Inr L_out \<Rightarrow> Inr (k_out, L_out, df_out, mu_out))
              | None \<Rightarrow>
                  (case std of
                     Some s \<Rightarrow>
                       (case std_cov ndim s of
                          Inl e \<Rightarrow> Inl e
                        | Inr c \<Rightarrow>
                            (case mc_cov tp rvs bounds c of
                               Inl e \<Rightarrow> Inl e
                             | Inr L_out \<Rightarrow> Inr (k_out, L_out, df_out, mu_out)))
                   | None \<Rightarrow>
                       (case probit_samples of
                          Some ps \<Rightarrow> Inr (k_out, samples_cov ndim ps, df_out, mu_out)
                        | None \<Rightarrow>
                            Inr (k_out,
                                 map (\<lambda>i. map (\<lambda>j. if i = j then Some ((2 / 10)\<^sup>2) else Some 0)
                                   [0..<ndim]) [0..<ndim],
                                 df_out, mu_out)))))"

text \<open>
  Instances of the two external functions, used to run the model on concrete inputs:
  a coordinate transform, rational in each coordinate, that takes the centre of each
  interval to 0 and is unbounded towards its ends, and a sampler whose \<open>i\<close>-th point
  lies \<open>2 + i\<close> beyond the centre in every coordinate.
\<close>

definition example_transform :: "real list \<Rightarrow> bounds \<Rightarrow> real list" where
  "example_transform x bounds =
     map (\<lambda>(v, b). (v - (fst b + snd b) / 2) / ((v - fst b) * (snd b - v))) (zip x bounds)"

definition far_sampler :: "real list \<Rightarrow> real list list \<Rightarrow> nat \<Rightarrow> error + real list list" where
  "far_sampler centre L n = Inr (map (\<lambda>i. map (\<lambda>c. c + 2 + real i) centre) [0..<n])"


text \<open>
  The marginal standard deviation of axis \<open>i\<close> of a covariance matrix, and the
  correlation of the axes \<open>i\<close> and \<open>j\<close>.
\<close>

definition marginal_std :: "npfloat list list \<Rightarrow> nat \<Rightarrow> npfloat" where
  "marginal_std L i = nf_sqrt (L ! i ! i)"

definition correlation :: "npfloat list list \<Rightarrow> nat \<Rightarrow> nat \<Rightarrow> npfloat" where
  "correlation L i j = nf_div (L ! i ! j) (nf_mul (marginal_std L i) (marginal_std L j))"

section \<open>Bounded grid (utils.py, recursive\_grid)\<close>

text \<open>
  \<^verbatim>\<open>np.linspace(start, stop, num)\<close>: \<open>num\<close> evenly spaced points from \<open>start\<close> to
  \<open>stop\<close>, both included; a negative \<open>num\<close> raises ValueError. The slice
  \<^verbatim>\<open>[1:-1]\<close> drops the first and the last element (and is empty for fewer than
  three elements).
\<close>

definition np_linspace :: "real \<Rightarrow> real \<Rightarrow> int \<Rightarrow> error + real list" where
  "np_linspace start stop num =
     (if num < 0 then Inl (ValueError ''Number of samples must be non-negative'')
      else if num = 1 then Inr [start]
      else Inr (map (\<lambda>k. start + real k * ((stop - start) / real (nat num - 1))) [0..<nat num]))"

definition slice_interior :: "'a list \<Rightarrow> 'a list" where
  "slice_interior xs = take (length xs - 2) (drop 1 xs)"

text \<open>
  The counts \<open>n_pts\<close> are the entries of a numpy array of 64-bit signed integers:
  \<^verbatim>\<open>n_pts[0]+2\<close> wraps around, and the wrapped value, read as a signed number, is
  what \<^verbatim>\<open>np.linspace\<close> receives.
\<close>

type_synonym int64 = "64 word"

text \<open>
  \<^verbatim>\<open>
  bounds = np.atleast_2d(bounds)
  n_pts  = np.atleast_1d(n_pts)
  if len(bounds) == 1:
      d  = np.linspace(bounds[0,0], bounds[0,1], n_pts[0]+2)[1:-1]
      dD = d[1]-d[0]
      return np.atleast_2d(d).T, [dD]
  else:
      grid_nm1, diff = recursive_grid(np.array(bounds)[1:], n_pts[1:])
      d = np.linspace(bounds[0,0], bounds[0,1], n_pts[0]+2)[1:-1]
      diff.append(d[1]-d[0])
      grid     = []
      for di in d:
          for gi in grid_nm1:
              grid.append([di,*gi])
      return np.array(grid), diff
  \<close>
  An empty list of bounds becomes an array of shape \<open>(1, 0)\<close> under
  \<^verbatim>\<open>np.atleast_2d\<close>: its length is 1 and \<^verbatim>\<open>bounds[0,0]\<close> raises IndexError.
  \<^verbatim>\<open>n_pts[0]\<close> of an empty array and \<^verbatim>\<open>d[1]\<close> of an array shorter than two
  raise IndexError.
\<close>

fun recursive_grid :: "bounds \<Rightarrow> int64 list \<Rightarrow> error + (real list list \<times> real list)" where
  "recursive_grid [] n_pts = Inl IndexError"
| "recursive_grid [b] n_pts =
     (case n_pts of
        [] \<Rightarrow> Inl IndexError
      | n # ns \<Rightarrow>
          (case np_linspace (fst b) (snd b) (sint (n + 2)) of
             Inl e \<Rightarrow> Inl e
           | Inr xs \<Rightarrow>
               (let d = slice_interior xs
                in if length d < 2 then Inl IndexError
                   else Inr (map (\<lambda>x. [x]) d, [d ! 1 - d ! 0]))))"
| "recursive_grid (b # bs) n_pts =
     (case recursive_grid bs (drop 1 n_pts) of
        Inl e \<Rightarrow> Inl e
      | Inr (grid_nm1, diff) \<Rightarrow>
          (case n_pts of
             [] \<Rightarrow> Inl IndexError
           | n # ns \<Rightarrow>
               (case np_linspace (fst b) (snd b) (sint (n + 2)) of
                  Inl e \<Rightarrow> Inl e
                | Inr xs \<Rightarrow>
                    (let d = slice_interior xs
                     in if length d < 2 then Inl IndexError
                        else Inr (concat (map (\<lambda>di. map (\<lambda>gi. di # gi) grid_nm1) d),
                                  diff @ [d ! 1 - d ! 0])))))"

text \<open>
  The points \<open>lo + k (hi - lo) / (n + 1)\<close> for \<open>k = 1, \<dots>, n\<close>, which is what the slice of
  the \<open>n + 2\<close> points of \<^verbatim>\<open>np.linspace\<close> contains.
\<close>

definition interior_points :: "real \<Rightarrow> real \<Rightarrow> int \<Rightarrow> real list" where
  "interior_points lo hi n = map (\<lambda>k. lo + real k * ((hi - lo) / (of_int n + 1))) [1..<nat n + 1]"

section \<open>Convergence diagnostic: the reconstruction runs (pipelines/entropy.py)\<close>

text \<open>
  The online estimator (\<^verbatim>\<open>figaro.mixture.DPGMM\<close>) and the entropy functional
  (\<^verbatim>\<open>figaro.diagnostic\<close>) are not part of the sources: they are the fields of an
  \<open>estimator\<close>, acting on an estimator state of type \<open>'m\<close>.
\<close>

record ('m, 'd) estimator =
  initialise :: "'m \<Rightarrow> 'm"
  add_new_point :: "'m \<Rightarrow> real list \<Rightarrow> 'm"
  build_mixture :: "'m \<Rightarrow> 'd"
  compute_entropy_single_draw :: "'m \<Rightarrow> real"

text \<open>
  What the loop over the runs reads and writes: the array \<open>samples\<close>, the estimator,
  the state of numpy's global random generator, and the accumulated \<open>draws\<close>,
  \<open>entropy\<close> and \<open>n_eval_S\<close>.
\<close>

record ('m, 'd, 'g) recon =
  st_samples :: "real list list"
  st_mix :: 'm
  st_rng :: 'g
  st_draws :: "'d list"
  st_entropy :: "real list list"
  st_n_eval_S :: "real list"

text \<open>Assignment \<^verbatim>\<open>xs[i] = v\<close> to a numpy array, with the indexing of \<open>np_getitem\<close>.\<close>

definition np_setitem :: "'a list \<Rightarrow> int \<Rightarrow> 'a \<Rightarrow> error + 'a list" where
  "np_setitem xs i v =
     (if 0 \<le> i \<and> i < int (length xs) then Inr (xs[nat i := v])
      else if i < 0 \<and> - int (length xs) \<le> i then Inr (xs[nat (int (length xs) + i) := v])
      else Inl IndexError)"

text \<open>
  The inner loop, over \<^verbatim>\<open>enumerate(samples)\<close>:
  \<^verbatim>\<open>
  for i, s in enumerate(samples):
      mix.add_new_point(s)
      if i%options.entropy_interval == 0:
          S[i//options.entropy_interval]        = compute_entropy_single_draw(mix)
          n_eval_S[i//options.entropy_interval] = i
  \<close>
\<close>

fun ingest ::
  "('m, 'd) estimator \<Rightarrow> int \<Rightarrow> (nat \<times> real list) list \<Rightarrow> 'm \<times> real list \<times> real list
     \<Rightarrow> error + ('m \<times> real list \<times> real list)" where
  "ingest est ei [] st = Inr st"
| "ingest est ei ((i, s) # rest) (m, S, n_eval) =
     (let m' = add_new_point est m s
      in if int i mod ei = 0 then
           (case np_setitem S (int i div ei) (compute_entropy_single_draw est m') of
              Inl e \<Rightarrow> Inl e
            | Inr S' \<Rightarrow>
                (case np_setitem n_eval (int i div ei) (real i) of
                   Inl e \<Rightarrow> Inl e
                 | Inr n_eval' \<Rightarrow> ingest est ei rest (m', S', n_eval')))
         else ingest est ei rest (m', S, n_eval))"

text \<open>
  One run. \<^verbatim>\<open>np.random.shuffle\<close> is the parameter \<open>shuffle\<close>: from the state of the
  generator and an array it gives the array as it is after the call, and the next state.
  \<^verbatim>\<open>
  S        = np.zeros(len(samples)//options.entropy_interval)
  n_eval_S = np.zeros(len(samples)//options.entropy_interval)
  mix.initialise()
  np.random.shuffle(samples)
  for i, s in enumerate(samples): ...
  draws.append(mix.build_mixture())
  entropy.append(S)
  \<close>
\<close>

definition one_run ::
  "('m, 'd) estimator \<Rightarrow> ('g \<Rightarrow> real list list \<Rightarrow> real list list \<times> 'g) \<Rightarrow> int
     \<Rightarrow> ('m, 'd, 'g) recon \<Rightarrow> error + ('m, 'd, 'g) recon" where
  "one_run est shuffle ei st =
     (if ei = 0 then Inl ZeroDivisionError
      else if int (length (st_samples st)) div ei < 0
        then Inl (ValueError ''negative dimensions are not allowed'')
      else
        (let S = replicate (nat (int (length (st_samples st)) div ei)) 0;
             n_eval = replicate (nat (int (length (st_samples st)) div ei)) 0;
             m0 = initialise est (st_mix st);
             shuffled = shuffle (st_rng st) (st_samples st)
         in case ingest est ei (enumerate 0 (fst shuffled)) (m0, S, n_eval) of
              Inl e \<Rightarrow> Inl e
            | Inr (m', S', n_eval') \<Rightarrow>
                Inr (st\<lparr>st_samples := fst shuffled, st_mix := m', st_rng := snd shuffled,
                        st_draws := st_draws st @ [build_mixture est m'],
                        st_entropy := st_entropy st @ [S'], st_n_eval_S := n_eval'\<rparr>)))"

text \<open>The loop \<^verbatim>\<open>for j in range(options.n_draws)\<close>, stopping at the first exception.\<close>

fun reconstruct ::
  "('m, 'd) estimator \<Rightarrow> ('g \<Rightarrow> real list list \<Rightarrow> real list list \<times> 'g) \<Rightarrow> int \<Rightarrow> nat
     \<Rightarrow> ('m, 'd, 'g) recon \<Rightarrow> error + ('m, 'd, 'g) recon" where
  "reconstruct est shuffle ei 0 st = Inr st"
| "reconstruct est shuffle ei (Suc n) st =
     (case one_run est shuffle ei st of
        Inl e \<Rightarrow> Inl e
      | Inr st' \<Rightarrow> reconstruct est shuffle ei n st')"

text \<open>
  Instances used to run the loop on concrete inputs: an estimator that counts the points
  it was given, and a shuffle that reverses the array.
\<close>

definition counting_estimator :: "(nat, nat) estimator" where
  "counting_estimator =
     \<lparr>initialise = (\<lambda>m. 0), add_new_point = (\<lambda>m s. Suc m), build_mixture = (\<lambda>m. m),
      compute_entropy_single_draw = (\<lambda>m. real m)\<rparr>"

definition reversing_shuffle :: "unit \<Rightarrow> real list list \<Rightarrow> real list list \<times> unit" where
  "reversing_shuffle g xs = (rev xs, g)"

section \<open>Rejection sampling (utils.py, rejection\_sampler)\<close>








text \<open>
  A second generator, whose numbers are all the midpoint of the interval, and a density
  that is 1 below 7/4 and 3 from there on.
\<close>

definition stuck_uniform :: "unit \<Rightarrow> real \<Rightarrow> real \<Rightarrow> nat \<Rightarrow> real list \<times> unit" where
  "stuck_uniform g a b n = (replicate n ((a + b) / 2), g)"


section \<open>Zero-crossing detection\<close>

lemma np_diff_length: "length (np_diff xs) = length xs - 1"
  by (induction xs rule: np_diff.induct) simp_all

lemma np_diff_nth: "i + 1 < length xs \<Longrightarrow> np_diff xs ! i = xs ! (i + 1) - xs ! i"
proof (induction xs arbitrary: i rule: np_diff.induct)
  case (1 x y xs)
  then show ?case by (cases i) simp_all
qed simp_all

lemma crossing_offsets_char:
  "crossing_offsets ac =
     filter (\<lambda>i. np_sign (ac ! i) \<noteq> np_sign (ac ! (i + 1))) [0..<length ac - 1]"
proof -
  have "filter (\<lambda>i. np_diff (map np_sign ac) ! i \<noteq> 0) [0..<length ac - 1] =
        filter (\<lambda>i. np_sign (ac ! i) \<noteq> np_sign (ac ! (i + 1))) [0..<length ac - 1]"
    by (rule filter_cong) (auto simp: np_diff_nth)
  then show ?thesis
    by (simp add: crossing_offsets_def np_where_def np_diff_length)
qed

lemma np_sign_sgn: "np_sign x = sgn x"
  by (simp add: np_sign_def sgn_real_def)

text \<open>
  C10: the sign taken by the scan is the sign function with values -1, 0 and 1, and the
  scan reports exactly the positions where the signs of two consecutive angular
  coefficients differ. So a reversal between a positive and a negative value is one
  crossing, two values of the same strict sign are none, and an exact zero is a sign of
  its own: a series that goes from a positive value through an exact zero to a negative
  value registers two crossings, and a step from a nonzero value to an exact zero
  registers one.
\<close>

theorem zero_is_a_crossing_boundary:
  "np_sign x = sgn x
   \<and> np_sign x \<in> {- 1, 0, 1}
   \<and> crossing_offsets ac =
       filter (\<lambda>i. sgn (ac ! i) \<noteq> sgn (ac ! (i + 1))) [0..<length ac - 1]
   \<and> (0 < a \<and> b < 0 \<longrightarrow> crossing_offsets [a, 0, b] = [0, 1])
   \<and> (a \<noteq> 0 \<longrightarrow> crossing_offsets [a, 0] = [0])
   \<and> (0 < a \<and> b < 0 \<longrightarrow> crossing_offsets [a, b] = [0] \<and> crossing_offsets [b, a] = [0])
   \<and> (0 < a * b \<longrightarrow> crossing_offsets [a, b] = [])"
proof (intro conjI impI)
  show "np_sign x = sgn x" by (rule np_sign_sgn)
  show "np_sign x \<in> {- 1, 0, 1}" by (simp add: np_sign_def)
  show "crossing_offsets ac =
       filter (\<lambda>i. sgn (ac ! i) \<noteq> sgn (ac ! (i + 1))) [0..<length ac - 1]"
    using crossing_offsets_char [of ac] by (simp add: np_sign_sgn)
  show "crossing_offsets [a, 0, b] = [0, 1]" if "0 < a \<and> b < 0"
    using that by (simp add: crossing_offsets_def np_where_def np_sign_def upt_rec)
  show "crossing_offsets [a, 0] = [0]" if "a \<noteq> 0"
    using that by (simp add: crossing_offsets_def np_where_def np_sign_def upt_rec)
  show "crossing_offsets [a, b] = [0]" if "0 < a \<and> b < 0"
    using that by (simp add: crossing_offsets_def np_where_def np_sign_def upt_rec)
  show "crossing_offsets [b, a] = [0]" if "0 < a \<and> b < 0"
    using that by (simp add: crossing_offsets_def np_where_def np_sign_def upt_rec)
  show "crossing_offsets [a, b] = []" if "0 < a * b"
    using that by (auto simp: crossing_offsets_def np_where_def np_sign_def upt_rec zero_less_mult_iff)
qed

theorem zero_is_a_crossing_boundary_witness:
  "crossing_offsets [2, 0, - 3] = [0, 1] \<and> crossing_offsets [- 5, 0] = [0]
   \<and> crossing_offsets [2, - 3] = [0] \<and> crossing_offsets [- 3, 2] = [0]
   \<and> crossing_offsets [2, 3] = []
   \<and> crossing_offsets [1, - 1, 1, - 1] = [0, 1, 2]
   \<and> crossing_offsets [1, 2, 0, 0, 4] = [1, 3]"
proof -
  note A = zero_is_a_crossing_boundary [of 0 "[1, - 1, 1, - 1]" 2 "- 3"]
  note B = zero_is_a_crossing_boundary [of 0 "[1, 2, 0, 0, 4]" "- 5" 0]
  note C = zero_is_a_crossing_boundary [of 0 "[]" 2 3]
  have a: "crossing_offsets [2, 0, - 3] = [0, 1]" and c: "crossing_offsets [2, - 3] = [0]"
    and d: "crossing_offsets [- 3, 2] = [0]"
    using A by simp_all
  have b: "crossing_offsets [- 5, 0] = [0]" using B by simp
  have e: "crossing_offsets [2, 3] = []" using C by simp
  have f: "crossing_offsets [1, - 1, 1, - 1] = [0, 1, 2]"
    using A by (simp add: upt_rec)
  have g: "crossing_offsets [1, 2, 0, 0, 4] = [1, 3]"
    using B by (simp add: upt_rec)
  from a b c d e f g show ?thesis by (intro conjI)
qed

section \<open>Convergence of a run\<close>

text \<open>
  C1: with the default \<open>Z = 5\<close>, a run whose angular coefficients change sign exactly five
  times has five zero crossings, yet the loop reads \<open>zc[5]\<close>, the sixth element: the run
  is flagged as not converged and no endpoint is recorded. A run with six crossings records
  its sixth crossing.
\<close>

theorem endpoint_needs_one_more_crossing:
  "zero_crossings 2 1 [1, - 1, 1, - 1, 1, - 1] = [2, 3, 4, 5, 6]
   \<and> find_endpoints 5 2 1 [[1, - 1, 1, - 1, 1, - 1]] = ([], True)
   \<and> zero_crossings 2 1 [1, - 1, 1, - 1, 1, - 1, 1] = [2, 3, 4, 5, 6, 7]
   \<and> find_endpoints 5 2 1 [[1, - 1, 1, - 1, 1, - 1, 1]] = ([7], False)"
  by (simp add: find_endpoints_def zero_crossings_def crossing_offsets_def np_where_def
      np_sign_def np_getitem_def upt_rec)

section \<open>Prior elicitation: degrees of freedom and location\<close>

text \<open>
  C5: whatever \<open>df\<close> the caller passes (nothing, a value at or below \<open>D + 2\<close>, a
  non-integer value), every result of \<open>get_priors\<close> has degrees of freedom above
  \<open>D + 1\<close>: the caller's value when it exceeds \<open>D + 2\<close>, and \<open>D + 2\<close> otherwise.
\<close>

theorem df_out_exceeds_dim_plus_one:
  assumes "get_priors tp rvs bounds samples mean std cov df k = Inr (k_out, L_out, df_out, mu_out)"
  shows "df_out > real (length bounds) + 1
         \<and> df_out = (case df of
                       Some v \<Rightarrow> if v > real (length bounds) + 2 then v else real (length bounds) + 2
                     | None \<Rightarrow> real (length bounds) + 2)"
proof -
  from assms have "df_out = df_out_of (length bounds) df"
    by (simp add: get_priors_def Let_def split: sum.splits option.splits)
  then show ?thesis
    by (simp add: df_out_of_def split: option.splits)
qed

lemma example_prior_default:
  "get_priors example_transform far_sampler [(- 5, 5)] None None None None df None =
     Inr (1 / 100, [[Some ((2 / 10)\<^sup>2)]], df_out_of 1 df, [Some 0])"
  by (simp add: get_priors_def mu_out_of_def)

theorem df_out_exceeds_dim_plus_one_witness:
  "get_priors example_transform far_sampler [(- 5, 5)] None None None None (Some 1) None =
     Inr (1 / 100, [[Some ((2 / 10)\<^sup>2)]], 3, [Some 0])
   \<and> get_priors example_transform far_sampler [(- 5, 5)] None None None None (Some (15 / 2)) None =
     Inr (1 / 100, [[Some ((2 / 10)\<^sup>2)]], 15 / 2, [Some 0])
   \<and> (3::real) > real (length [(- 5 :: real, 5 :: real)]) + 1"
proof -
  have a: "get_priors example_transform far_sampler [(- 5, 5)] None None None None (Some 1) None =
     Inr (1 / 100, [[Some ((2 / 10)\<^sup>2)]], 3, [Some 0])"
    unfolding example_prior_default by (simp add: df_out_of_def)
  have b: "get_priors example_transform far_sampler [(- 5, 5)] None None None None (Some (15 / 2)) None =
     Inr (1 / 100, [[Some ((2 / 10)\<^sup>2)]], 15 / 2, [Some 0])"
    unfolding example_prior_default by (simp add: df_out_of_def)
  have c: "(3::real) > real (length [(- 5 :: real, 5 :: real)]) + 1"
    using df_out_exceeds_dim_plus_one [OF a] by (rule conjunct1)
  from a b c show ?thesis by (intro conjI)
qed

lemma mean_inside_same_length:
  "length m = length bounds \<Longrightarrow> mean_inside bounds m = Inr (in_bounds bounds m)"
proof -
  assume len: "length m = length bounds"
  have "list_all (\<lambda>(l, x). l < x) (zip (map fst bounds) m)
          \<and> list_all (\<lambda>(x, h). x < h) (zip m (map snd bounds))
        \<longleftrightarrow> list_all (\<lambda>(b, x). fst b < x \<and> x < snd b) (zip bounds m)"
    using len
  proof (induction bounds arbitrary: m)
    case Nil
    then show ?case by simp
  next
    case (Cons b bs)
    then obtain x xs where "m = x # xs" by (cases m) auto
    with Cons show ?case by auto
  qed
  with len show ?thesis
    by (simp add: mean_inside_def broadcast_pairs_def in_bounds_def)
qed

text \<open>
  C6: with an explicit mean of the length of the bounds, \<open>get_priors\<close> raises
  ValueError "Mean is outside of the given bounds" whenever some component is not strictly
  between its bounds (so for bounds \<open>[[-5, 5]]\<close> and mean 10); when the mean is strictly
  inside, every result carries the transformed mean as \<open>mu\<close>, and without \<open>std\<close> and
  \<open>cov\<close> the call does return.
\<close>

theorem explicit_mean_checked:
  assumes "length m = length bounds"
  shows "(\<not> in_bounds bounds m \<longrightarrow>
            get_priors tp rvs bounds samples (Some m) std cov df k =
              Inl (ValueError ''Mean is outside of the given bounds''))
       \<and> (in_bounds bounds m \<longrightarrow>
            (\<forall>k_out L_out df_out mu_out.
               get_priors tp rvs bounds samples (Some m) std cov df k = Inr (k_out, L_out, df_out, mu_out)
               \<longrightarrow> mu_out = map Some (tp m bounds))
          \<and> (\<exists>k_out L_out df_out.
               get_priors tp rvs bounds samples (Some m) None None df k =
                 Inr (k_out, L_out, df_out, map Some (tp m bounds))))
       \<and> get_priors tp rvs [(- 5, 5)] None (Some [10]) None None None None =
              Inl (ValueError ''Mean is outside of the given bounds'')"
proof (intro conjI impI allI)
  show "get_priors tp rvs bounds samples (Some m) std cov df k =
          Inl (ValueError ''Mean is outside of the given bounds'')" if "\<not> in_bounds bounds m"
    using that assms by (simp add: get_priors_def mu_out_of_def mean_inside_same_length)
  show "mu_out = map Some (tp m bounds)"
    if "in_bounds bounds m"
      "get_priors tp rvs bounds samples (Some m) std cov df k = Inr (k_out, L_out, df_out, mu_out)"
    for k_out L_out df_out mu_out
    using that assms
    by (simp add: get_priors_def mu_out_of_def mean_inside_same_length Let_def
        split: sum.splits option.splits)
  show "\<exists>k_out L_out df_out.
          get_priors tp rvs bounds samples (Some m) None None df k =
            Inr (k_out, L_out, df_out, map Some (tp m bounds))" if "in_bounds bounds m"
    using that assms
    by (simp add: get_priors_def mu_out_of_def mean_inside_same_length Let_def
        split: option.splits)
  show "get_priors tp rvs [(- 5, 5)] None (Some [10]) None None None None =
          Inl (ValueError ''Mean is outside of the given bounds'')"
    by (simp add: get_priors_def mu_out_of_def mean_inside_def broadcast_pairs_def)
qed

theorem explicit_mean_checked_witness:
  "get_priors example_transform far_sampler [(- 5, 5)] None (Some [10]) None None None None =
     Inl (ValueError ''Mean is outside of the given bounds'')
   \<and> get_priors example_transform far_sampler [(- 5, 5)] None (Some [- 5]) None None None None =
     Inl (ValueError ''Mean is outside of the given bounds'')
   \<and> get_priors example_transform far_sampler [(- 5, 5)] None (Some [3]) None None None None =
     Inr (1 / 100, [[Some ((2 / 10)\<^sup>2)]], 3, [Some (3 / 16)])"
proof -
  have len: "length [x :: real] = length [(- 5 :: real, 5 :: real)]" for x by simp
  have out: "\<not> in_bounds [(- 5, 5)] [- 5]" by (simp add: in_bounds_def)
  have ins: "in_bounds [(- 5, 5)] [3]" by (simp add: in_bounds_def)
  have r: "get_priors example_transform far_sampler [(- 5, 5)] None (Some [3]) None None None None =
     Inr (1 / 100, [[Some ((2 / 10)\<^sup>2)]], 3, [Some (3 / 16)])"
    by (simp add: get_priors_def mu_out_of_def mean_inside_def broadcast_pairs_def
        example_transform_def df_out_of_def)
  show ?thesis
    using explicit_mean_checked [OF len, of "- 5" example_transform far_sampler None None None None None]
      explicit_mean_checked [OF len, of 3 example_transform far_sampler None None None None None]
      out ins r
    by simp
qed

section \<open>Prior elicitation: Monte-Carlo re-estimation\<close>

lemma np_cov_few: "length rows < 2 \<Longrightarrow> np_cov D rows = replicate D (replicate D None)"
  by (simp add: np_cov_def map_replicate_const)

text \<open>
  C2, as claimed, fails: nothing in \<open>get_priors\<close> looks at the number of retained draws.
  With bounds \<open>[[-1, 1]]\<close> and \<open>std = 10\<^sup>6\<close>, a sampler whose 10000 draws all fall
  outside the bounds leaves no survivor, and the call returns normally with a
  covariance that is not a number.
\<close>

theorem no_guard_on_retained_draws_counterexample:
  "far_sampler (box_centre [(- 1, 1)]) [[(1000000::real)\<^sup>2]] 10000 =
     Inr (map (\<lambda>i. [2 + real i]) [0..<10000])
   \<and> retained [(- 1, 1)] (map (\<lambda>i. [2 + real i]) [0..<10000]) = []
   \<and> get_priors example_transform far_sampler [(- 1, 1)] None None (Some [1000000]) None None None =
     Inr (1 / 100, [[None]], 3, [Some 0])"
proof (intro conjI)
  show "far_sampler (box_centre [(- 1, 1)]) [[(1000000::real)\<^sup>2]] 10000 =
     Inr (map (\<lambda>i. [2 + real i]) [0..<10000])"
    by (simp add: far_sampler_def box_centre_def)
  show "retained [(- 1, 1)] (map (\<lambda>i. [2 + real i]) [0..<10000]) = []"
    by (simp add: retained_def in_bounds_def filter_empty_conv)
  show "get_priors example_transform far_sampler [(- 1, 1)] None None (Some [1000000]) None None None =
     Inr (1 / 100, [[None]], 3, [Some 0])"
    by (simp add: get_priors_def mu_out_of_def std_cov_def mc_cov_def far_sampler_def
        box_centre_def retained_def in_bounds_def filter_empty_conv np_cov_def df_out_of_def)
qed

text \<open>
  C2, amended: with an explicit covariance (or a standard deviation that broadcasts to
  one), whenever the location step succeeds and the sampler delivers its draws the call
  returns, and \<open>L\<close> is the empirical covariance of the transformed retained draws,
  however few they are; with fewer than two retained draws every entry of \<open>L\<close> is not a
  number.
\<close>

theorem retained_draws_unguarded:
  assumes "rvs (box_centre bounds) c 10000 = Inr ss"
    and "mu_out_of tp bounds (map_option (map (\<lambda>s. tp s bounds)) samples) mean = Inr mu_out"
  shows "get_priors tp rvs bounds samples mean std (Some c) df k =
           Inr (case k of Some v \<Rightarrow> v | None \<Rightarrow> 1 / 100,
                np_cov (length bounds) (map (\<lambda>s. tp s bounds) (retained bounds ss)),
                df_out_of (length bounds) df, mu_out)
       \<and> (std_cov (length bounds) s = Inr c \<longrightarrow>
            get_priors tp rvs bounds samples mean (Some s) None df k =
               Inr (case k of Some v \<Rightarrow> v | None \<Rightarrow> 1 / 100,
                    np_cov (length bounds) (map (\<lambda>s. tp s bounds) (retained bounds ss)),
                    df_out_of (length bounds) df, mu_out))
       \<and> (length (retained bounds ss) < 2 \<longrightarrow>
            np_cov (length bounds) (map (\<lambda>s. tp s bounds) (retained bounds ss)) =
              replicate (length bounds) (replicate (length bounds) None))"
proof (intro conjI impI)
  show "get_priors tp rvs bounds samples mean std (Some c) df k =
           Inr (case k of Some v \<Rightarrow> v | None \<Rightarrow> 1 / 100,
                np_cov (length bounds) (map (\<lambda>s. tp s bounds) (retained bounds ss)),
                df_out_of (length bounds) df, mu_out)"
    using assms by (simp add: get_priors_def Let_def mc_cov_def)
  show "get_priors tp rvs bounds samples mean (Some s) None df k =
               Inr (case k of Some v \<Rightarrow> v | None \<Rightarrow> 1 / 100,
                    np_cov (length bounds) (map (\<lambda>s. tp s bounds) (retained bounds ss)),
                    df_out_of (length bounds) df, mu_out)"
    if "std_cov (length bounds) s = Inr c"
    using assms that by (simp add: get_priors_def Let_def mc_cov_def)
  show "np_cov (length bounds) (map (\<lambda>s. tp s bounds) (retained bounds ss)) =
              replicate (length bounds) (replicate (length bounds) None)"
    if "length (retained bounds ss) < 2"
    using that by (simp add: np_cov_few)
qed

theorem retained_draws_unguarded_witness:
  "get_priors example_transform far_sampler [(- 1, 1)] None None None (Some [[4]]) None None =
       Inr (1 / 100, [[None]], 3, [Some 0])
   \<and> length (retained [(- 1, 1)] (map (\<lambda>i. [2 + real i]) [0..<10000])) < 2"
proof -
  have s: "far_sampler (box_centre [(- 1, 1)]) [[4]] 10000 = Inr (map (\<lambda>i. [2 + real i]) [0..<10000])"
    by (simp add: far_sampler_def box_centre_def)
  have m: "mu_out_of example_transform [(- 1, 1)]
             (map_option (map (\<lambda>s. example_transform s [(- 1, 1)])) None) None = Inr [Some 0]"
    by (simp add: mu_out_of_def)
  have r: "retained [(- 1, 1)] (map (\<lambda>i. [2 + real i]) [0..<10000]) = []"
    by (simp add: retained_def in_bounds_def filter_empty_conv)
  note T = retained_draws_unguarded [where rvs = far_sampler and bounds = "[(- 1, 1)]"
      and c = "[[4]]" and ss = "map (\<lambda>i. [2 + real i]) [0..<10000]" and tp = example_transform
      and samples = None and mean = None and mu_out = "[Some 0]" and std = None and df = None
      and k = None, OF s m]
  have "get_priors example_transform far_sampler [(- 1, 1)] None None None (Some [[4]]) None None =
       Inr (1 / 100, [[None]], 3, [Some 0])"
    using T unfolding r by (simp add: df_out_of_def np_cov_def)
  then show ?thesis unfolding r by simp
qed

section \<open>Prior elicitation: covariance from samples\<close>

lemma np_cov_nth:
  "2 \<le> length ps \<Longrightarrow> i < D \<Longrightarrow> j < D \<Longrightarrow> np_cov D ps ! i ! j = Some (cov_entry ps i j)"
  by (simp add: np_cov_def)

lemma samples_cov_nth:
  assumes "2 \<le> length ps" "i < D" "j < D" "0 < cov_entry ps i i" "0 < cov_entry ps j j"
  shows "samples_cov D ps ! i ! j =
           Some (cov_entry ps i j / 9
                 * (min (sqrt (cov_entry ps i i / 9)) (2 / 10) * min (sqrt (cov_entry ps j j / 9)) (2 / 10))
                 / (sqrt (cov_entry ps i i / 9) * sqrt (cov_entry ps j j / 9)))"
  using assms
  by (simp add: samples_cov_def Let_def np_cov_def nf_div_def nf_mul_def nf_sqrt_def nf_minimum_def)

lemma samples_cov_diag:
  assumes "2 \<le> length ps" "i < D" "0 < cov_entry ps i i"
  shows "samples_cov D ps ! i ! i = Some ((min (sqrt (cov_entry ps i i / 9)) (2 / 10))\<^sup>2)"
proof -
  let ?d = "sqrt (cov_entry ps i i / 9)"
  have d: "0 < ?d" using assms by simp
  have "cov_entry ps i i / 9 = ?d * ?d" using assms by simp
  then have "cov_entry ps i i / 9 * (min ?d (2 / 10) * min ?d (2 / 10)) / (?d * ?d)
             = (min ?d (2 / 10))\<^sup>2"
    using d by (simp add: power2_eq_square)
  then show ?thesis
    using samples_cov_nth [OF assms(1) assms(2) assms(2) assms(3) assms(3)] by simp
qed

lemma samples_marginal_std:
  assumes "2 \<le> length ps" "i < D" "0 < cov_entry ps i i"
  shows "marginal_std (samples_cov D ps) i = Some (min (sqrt (cov_entry ps i i / 9)) (2 / 10))"
proof -
  have "0 < min (sqrt (cov_entry ps i i / 9)) (2 / 10)" using assms by simp
  then show ?thesis
    by (simp add: marginal_std_def samples_cov_diag [OF assms] nf_sqrt_def)
qed

lemma samples_correlation:
  assumes "2 \<le> length ps" "i < D" "j < D" "0 < cov_entry ps i i" "0 < cov_entry ps j j"
  shows "correlation (samples_cov D ps) i j = correlation (np_cov D ps) i j"
proof -
  let ?di = "sqrt (cov_entry ps i i / 9)" and ?dj = "sqrt (cov_entry ps j j / 9)"
  let ?si = "min ?di (2 / 10)" and ?sj = "min ?dj (2 / 10)"
  have pos: "0 < ?di" "0 < ?dj" "0 < ?si" "0 < ?sj" using assms by simp_all
  have ne: "?si \<noteq> 0" "?sj \<noteq> 0"
    using pos(3) pos(4) by linarith+
  have l: "correlation (samples_cov D ps) i j =
           Some (cov_entry ps i j / 9 * (?si * ?sj) / (?di * ?dj) / (?si * ?sj))"
    using ne
    by (simp add: correlation_def samples_marginal_std assms samples_cov_nth nf_div_def nf_mul_def)
  have r: "correlation (np_cov D ps) i j =
           Some (cov_entry ps i j / (sqrt (cov_entry ps i i) * sqrt (cov_entry ps j j)))"
    using assms
    by (simp add: correlation_def marginal_std_def np_cov_nth nf_div_def nf_mul_def nf_sqrt_def)
  have "cov_entry ps i j / 9 * (?si * ?sj) / (?di * ?dj) / (?si * ?sj)
        = cov_entry ps i j / 9 / (?di * ?dj)"
    using ne by simp
  also have "\<dots> = cov_entry ps i j / (sqrt (cov_entry ps i i) * sqrt (cov_entry ps j j))"
    by (simp add: real_sqrt_divide)
  finally show ?thesis using l r by simp
qed


text \<open>
  C7, as claimed, fails on degenerate samples: two equal samples have zero variance, the
  rescaling divides zero by zero, and the returned matrix is not a number; so it is with a
  single sample, whose covariance numpy cannot estimate. There is then no marginal
  standard deviation that is at most 0.2.
\<close>

theorem samples_only_cov_counterexample:
  "get_priors example_transform far_sampler [(- 1, 1)] (Some [[0], [0]]) None None None None None =
     Inr (1 / 100, [[None]], 3, [Some 0])
   \<and> get_priors example_transform far_sampler [(- 1, 1)] (Some [[1 / 2]]) None None None None None =
     Inr (1 / 100, [[None]], 3, [Some (2 / 3)])
   \<and> marginal_std [[None]] 0 = None"
  by (simp add: get_priors_def mu_out_of_def column_means_def column_def np_mean_def
      example_transform_def samples_cov_def np_cov_def cov_entry_def avg_def df_out_of_def
      nf_div_def nf_mul_def nf_sqrt_def nf_minimum_def marginal_std_def)

text \<open>
  C7, amended: when \<open>L\<close> is derived from at least two samples whose transformed
  coordinates all have positive empirical variance, entry \<open>(i, j)\<close> of \<open>L\<close> is the
  empirical covariance \<open>C i j\<close> divided by 9 and rescaled by the clamped over the
  unclamped standard deviations; the marginal standard deviation of axis \<open>i\<close> is
  \<open>min (sqrt (C i i / 9)) 0.2\<close>, so at most 0.2; the correlations of \<open>L\<close> are those of
  the empirical covariance; and when the sample standard deviation of axis \<open>i\<close> is at
  least 0.6 the marginal standard deviation is exactly 0.2.
\<close>

theorem samples_only_cov_clamped:
  fixes tp :: "real list \<Rightarrow> bounds \<Rightarrow> real list"
    and bounds :: bounds and samples :: "real list list"
  defines "C \<equiv> cov_entry (map (\<lambda>s. tp s bounds) samples)"
  assumes "get_priors tp rvs bounds (Some samples) mean None None df k =
             Inr (k_out, L_out, df_out, mu_out)"
    and "2 \<le> length samples"
    and "\<forall>a<length bounds. 0 < C a a"
    and "i < length bounds" and "j < length bounds"
  shows "L_out ! i ! j =
           Some (C i j / 9
                 * (min (sqrt (C i i / 9)) (2 / 10) * min (sqrt (C j j / 9)) (2 / 10))
                 / (sqrt (C i i / 9) * sqrt (C j j / 9)))
       \<and> marginal_std L_out i = Some (min (sqrt (C i i / 9)) (2 / 10))
       \<and> (\<exists>s. marginal_std L_out i = Some s \<and> s \<le> 2 / 10)
       \<and> correlation L_out i j =
           correlation (np_cov (length bounds) (map (\<lambda>s. tp s bounds) samples)) i j
       \<and> ((6 / 10)\<^sup>2 \<le> C i i \<longrightarrow> marginal_std L_out i = Some (2 / 10))"
proof -
  let ?ps = "map (\<lambda>s. tp s bounds) samples"
  have L: "L_out = samples_cov (length bounds) ?ps"
    using assms(2) by (simp add: get_priors_def Let_def split: sum.splits)
  have len: "2 \<le> length ?ps" using assms(3) by simp
  have pi: "0 < cov_entry ?ps i i" and pj: "0 < cov_entry ?ps j j"
    using assms(4,5,6) by (simp_all add: C_def)
  have std: "marginal_std L_out i = Some (min (sqrt (C i i / 9)) (2 / 10))"
    unfolding L C_def by (rule samples_marginal_std [OF len assms(5) pi])
  have big: "marginal_std L_out i = Some (2 / 10)" if "(6 / 10)\<^sup>2 \<le> C i i"
  proof -
    have "((6 / 10)\<^sup>2 :: real) / 9 = (2 / 10)\<^sup>2" by (simp add: power2_eq_square)
    then have "(2 / 10)\<^sup>2 \<le> C i i / 9" using that by linarith
    then have "sqrt ((2 / 10)\<^sup>2) \<le> sqrt (C i i / 9)" by (simp only: real_sqrt_le_iff)
    then have "2 / 10 \<le> sqrt (C i i / 9)" by simp
    then show ?thesis using std by (simp add: min_def)
  qed
  show ?thesis
  proof (intro conjI impI)
    show "L_out ! i ! j =
           Some (C i j / 9
                 * (min (sqrt (C i i / 9)) (2 / 10) * min (sqrt (C j j / 9)) (2 / 10))
                 / (sqrt (C i i / 9) * sqrt (C j j / 9)))"
      unfolding L C_def by (rule samples_cov_nth [OF len assms(5) assms(6) pi pj])
    show "marginal_std L_out i = Some (min (sqrt (C i i / 9)) (2 / 10))" by (rule std)
    show "\<exists>s. marginal_std L_out i = Some s \<and> s \<le> 2 / 10" using std by simp
    show "correlation L_out i j = correlation (np_cov (length bounds) ?ps) i j"
      unfolding L by (rule samples_correlation [OF len assms(5) assms(6) pi pj])
    show "marginal_std L_out i = Some (2 / 10)" if "(6 / 10)\<^sup>2 \<le> C i i"
      using that by (rule big)
  qed
qed

lemma example_three_samples:
  "get_priors example_transform far_sampler [(- 1, 1)] (Some [[- 1 / 2], [0], [1 / 2]])
     None None None None None =
     Inr (1 / 100, [[Some (1 / 25)]], 3, [Some 0])"
  by (simp add: get_priors_def mu_out_of_def column_means_def column_def np_mean_def
      example_transform_def samples_cov_def np_cov_def cov_entry_def avg_def df_out_of_def
      nf_div_def nf_mul_def nf_sqrt_def nf_minimum_def real_sqrt_divide)

lemma example_three_samples_var:
  "cov_entry (map (\<lambda>s. example_transform s [(- 1, 1)]) [[- 1 / 2], [0], [1 / 2]]) 0 0 = 4 / 9"
  by (simp add: example_transform_def cov_entry_def avg_def column_def)

theorem samples_only_cov_clamped_witness:
  "get_priors example_transform far_sampler [(- 1, 1)] (Some [[- 1 / 2], [0], [1 / 2]])
     None None None None None =
     Inr (1 / 100, [[Some (1 / 25)]], 3, [Some 0])
   \<and> marginal_std [[Some (1 / 25)]] 0 = Some (2 / 10)
   \<and> correlation [[Some (1 / 25)]] 0 0 =
       correlation (np_cov 1 (map (\<lambda>s. example_transform s [(- 1, 1)]) [[- 1 / 2], [0], [1 / 2]])) 0 0"
proof -
  have v: "\<forall>a<length [(- 1 :: real, 1 :: real)].
             0 < cov_entry (map (\<lambda>s. example_transform s [(- 1, 1)]) [[- 1 / 2], [0], [1 / 2]]) a a"
    using example_three_samples_var by simp
  have n: "2 \<le> length [[- 1 / 2], [0], [1 / 2 :: real]]" by simp
  have z: "0 < length [(- 1 :: real, 1 :: real)]" by simp
  have big: "(6 / 10)\<^sup>2
      \<le> cov_entry (map (\<lambda>s. example_transform s [(- 1, 1)]) [[- 1 / 2], [0], [1 / 2]]) 0 0"
    unfolding example_three_samples_var by (simp add: power2_eq_square)
  note T = samples_only_cov_clamped [OF example_three_samples n v z z]
  have std: "marginal_std [[Some (1 / 25)]] 0 = Some (2 / 10)"
    using T big by blast
  have corr: "correlation [[Some (1 / 25)]] 0 0 =
       correlation (np_cov 1 (map (\<lambda>s. example_transform s [(- 1, 1)]) [[- 1 / 2], [0], [1 / 2]])) 0 0"
    using T by simp
  from example_three_samples std corr show ?thesis by (intro conjI)
qed


section \<open>Bounded grid: size, interior points and spacings\<close>

lemma interior_length: "length (interior_points lo hi n) = nat n"
  by (simp add: interior_points_def)

lemma interior_nth:
  "i < nat n \<Longrightarrow> interior_points lo hi n ! i = lo + real (i + 1) * ((hi - lo) / (of_int n + 1))"
  by (simp add: interior_points_def add.commute del: upt_Suc)

lemma linspace_interior:
  assumes "2 \<le> n"
  shows "np_linspace lo hi (n + 2) = Inr (map (\<lambda>k. lo + real k * ((hi - lo) / (of_int n + 1))) [0..<nat n + 2])"
proof -
  have "nat (n + 2) = nat n + 2" "real (nat n + 2 - 1) = of_int n + 1"
    using assms by (simp_all add: nat_add_distrib)
  then show ?thesis
    using assms by (simp add: np_linspace_def del: upt_Suc)
qed

lemma slice_interior_linspace:
  "slice_interior (map (\<lambda>k. lo + real k * ((hi - lo) / (of_int n + 1))) [0..<nat n + 2]) =
     interior_points lo hi n"
proof (rule nth_equalityI)
  show "length (slice_interior (map (\<lambda>k. lo + real k * ((hi - lo) / (of_int n + 1))) [0..<nat n + 2])) =
        length (interior_points lo hi n)"
    by (simp add: slice_interior_def interior_length del: upt_Suc)
next
  fix i
  assume "i < length (slice_interior (map (\<lambda>k. lo + real k * ((hi - lo) / (of_int n + 1))) [0..<nat n + 2]))"
  then have i: "i < nat n" by (simp add: slice_interior_def del: upt_Suc)
  then have "slice_interior (map (\<lambda>k. lo + real k * ((hi - lo) / (of_int n + 1))) [0..<nat n + 2]) ! i
             = lo + real (i + 1) * ((hi - lo) / (of_int n + 1))"
    by (simp add: slice_interior_def add.commute del: upt_Suc)
  then show "slice_interior (map (\<lambda>k. lo + real k * ((hi - lo) / (of_int n + 1))) [0..<nat n + 2]) ! i
             = interior_points lo hi n ! i"
    using i by (simp only: interior_nth)
qed

lemma interior_spacing:
  assumes "2 \<le> n"
  shows "interior_points lo hi n ! 1 - interior_points lo hi n ! 0 = (hi - lo) / (of_int n + 1)"
proof -
  have "(1::nat) < nat n" "(0::nat) < nat n" using assms by simp_all
  then have "interior_points lo hi n ! 1 = lo + real (1 + 1) * ((hi - lo) / (of_int n + 1))"
    and "interior_points lo hi n ! 0 = lo + real (0 + 1) * ((hi - lo) / (of_int n + 1))"
    by (simp_all only: interior_nth)
  then show ?thesis by (simp add: algebra_simps)
qed

lemma interior_strict:
  assumes "lo < hi" "x \<in> set (interior_points lo hi n)"
  shows "lo < x \<and> x < hi"
proof -
  from assms(2) obtain k where k: "1 \<le> k" "k < nat n + 1" "x = lo + real k * ((hi - lo) / (of_int n + 1))"
    by (auto simp: interior_points_def)
  have n: "0 < (of_int n :: real) + 1" "real k < of_int n + 1" using k by auto
  have "0 < real k * ((hi - lo) / (of_int n + 1))" using k assms(1) n by simp
  moreover have "real k * ((hi - lo) / (of_int n + 1)) < hi - lo"
  proof -
    have "real k * (hi - lo) < (of_int n + 1) * (hi - lo)"
      using n(2) assms(1) by (simp add: mult_strict_right_mono)
    then show ?thesis using n(1) by (simp add: field_simps)
  qed
  ultimately show ?thesis using k(3) by linarith
qed

lemma linspace_slice:
  assumes "2 \<le> n"
  obtains xs where "np_linspace lo hi (n + 2) = Inr xs"
    and "slice_interior xs = interior_points lo hi n"
  using linspace_interior [OF assms] slice_interior_linspace by blast

lemma interior_not_short: "2 \<le> n \<Longrightarrow> \<not> length (interior_points lo hi n) < 2"
  by (simp add: interior_length)

lemma sint_count_plus_two:
  fixes n :: int64
  assumes "2 \<le> sint n" "sint n \<le> 2 ^ 63 - 3"
  shows "sint (n + 2) = sint n + 2"
proof -
  have "sint (n + 2) = signed_take_bit (LENGTH(64) - 1) (sint n + sint (2 :: int64))"
    by (rule sint_word_add)
  then have "sint (n + 2) = signed_take_bit 63 (sint n + 2)" by simp
  also have "\<dots> = sint n + 2"
    using assms by (intro signed_take_bit_int_eq_self) linarith+
  finally show ?thesis .
qed

lemma recursive_grid_one:
  fixes n :: int64
  assumes "2 \<le> sint n" "sint n \<le> 2 ^ 63 - 3"
  shows "recursive_grid [b] (n # ns) =
           Inr (map (\<lambda>x. [x]) (interior_points (fst b) (snd b) (sint n)),
                [(snd b - fst b) / (of_int (sint n) + 1)])"
proof -
  obtain xs where xs: "np_linspace (fst b) (snd b) (sint n + 2) = Inr xs"
    "slice_interior xs = interior_points (fst b) (snd b) (sint n)"
    using linspace_slice [OF assms(1)] by blast
  show ?thesis
    using interior_spacing [OF assms(1), of "fst b" "snd b"]
    by (simp add: sint_count_plus_two [OF assms] xs interior_not_short [OF assms(1)] Let_def)
qed

lemma recursive_grid_more:
  fixes n :: int64
  assumes "2 \<le> sint n" "sint n \<le> 2 ^ 63 - 3" "bs \<noteq> []"
  shows "recursive_grid (b # bs) (n # ns) =
           (case recursive_grid bs ns of
              Inl e \<Rightarrow> Inl e
            | Inr (grid_nm1, diff) \<Rightarrow>
                Inr (concat (map (\<lambda>di. map (\<lambda>gi. di # gi) grid_nm1)
                       (interior_points (fst b) (snd b) (sint n))),
                     diff @ [(snd b - fst b) / (of_int (sint n) + 1)]))"
proof -
  from assms(3) obtain c cs where bs: "bs = c # cs" by (cases bs) auto
  obtain xs where xs: "np_linspace (fst b) (snd b) (sint n + 2) = Inr xs"
    "slice_interior xs = interior_points (fst b) (snd b) (sint n)"
    using linspace_slice [OF assms(1)] by blast
  show ?thesis
    unfolding bs using interior_spacing [OF assms(1), of "fst b" "snd b"]
    by (simp add: sint_count_plus_two [OF assms(1,2)] xs interior_not_short [OF assms(1)] Let_def
        split: sum.splits)
qed

lemma length_concat_const:
  "(\<And>x. x \<in> set xs \<Longrightarrow> length (f x) = m) \<Longrightarrow> length (concat (map f xs)) = length xs * m"
  by (induction xs) simp_all

lemma recursive_grid_shape:
  fixes n_pts :: "int64 list"
  assumes "bounds \<noteq> []" "length n_pts = length bounds"
    and "\<forall>b\<in>set bounds. fst b < snd b"
    and "\<forall>n\<in>set n_pts. 2 \<le> sint n \<and> sint n \<le> 2 ^ 63 - 3"
  shows "\<exists>grid diff. recursive_grid bounds n_pts = Inr (grid, diff)
           \<and> int (length grid) = prod_list (map sint n_pts)
           \<and> (\<forall>p\<in>set grid. length p = length bounds \<and> in_bounds bounds p)
           \<and> diff = rev (map (\<lambda>(b, n). (snd b - fst b) / (of_int (sint n) + 1)) (zip bounds n_pts))"
  using assms
proof (induction bounds arbitrary: n_pts)
  case Nil
  then show ?case by simp
next
  case (Cons b bs)
  from Cons.prems(2) obtain n ns where n_pts: "n_pts = n # ns" and len: "length ns = length bs"
    by (cases n_pts) auto
  have n: "2 \<le> sint n" and n': "sint n \<le> 2 ^ 63 - 3"
    and ns: "\<forall>m\<in>set ns. 2 \<le> sint m \<and> sint m \<le> 2 ^ 63 - 3"
    using Cons.prems(4) n_pts by auto
  have b: "fst b < snd b" and bs: "\<forall>c\<in>set bs. fst c < snd c" using Cons.prems(3) by auto
  let ?d = "interior_points (fst b) (snd b) (sint n)"
  have d: "\<And>x. x \<in> set ?d \<Longrightarrow> fst b < x \<and> x < snd b"
    using interior_strict [OF b] by blast
  show ?case
  proof (cases "bs = []")
    case True
    then have e: "ns = []" using len by simp
    have r: "recursive_grid (b # bs) n_pts =
           Inr (map (\<lambda>x. [x]) ?d, [(snd b - fst b) / (of_int (sint n) + 1)])"
      unfolding True n_pts by (rule recursive_grid_one [OF n n'])
    have "int (length (map (\<lambda>x. [x]) ?d)) = prod_list (map sint n_pts)"
      using n by (simp add: interior_length n_pts e)
    moreover have "\<forall>p\<in>set (map (\<lambda>x. [x]) ?d). length p = length (b # bs) \<and> in_bounds (b # bs) p"
      using d by (auto simp: in_bounds_def True)
    moreover have "[(snd b - fst b) / (of_int (sint n) + 1)] =
             rev (map (\<lambda>(b, n). (snd b - fst b) / (of_int (sint n) + 1)) (zip (b # bs) n_pts))"
      by (simp add: n_pts e True)
    ultimately show ?thesis using r by blast
  next
    case False
    from Cons.IH [OF False len bs ns] obtain g df where
      g: "recursive_grid bs ns = Inr (g, df)" "int (length g) = prod_list (map sint ns)"
        "\<forall>p\<in>set g. length p = length bs \<and> in_bounds bs p"
        "df = rev (map (\<lambda>(b, n). (snd b - fst b) / (of_int (sint n) + 1)) (zip bs ns))"
      by blast
    let ?grid = "concat (map (\<lambda>di. map (\<lambda>gi. di # gi) g) ?d)"
    have r: "recursive_grid (b # bs) n_pts = Inr (?grid, df @ [(snd b - fst b) / (of_int (sint n) + 1)])"
      unfolding n_pts by (simp add: recursive_grid_more [OF n n' False] g(1))
    have "length ?grid = length ?d * length g"
      by (rule length_concat_const) simp
    then have c: "int (length ?grid) = prod_list (map sint n_pts)"
      using n g(2) by (simp add: interior_length n_pts)
    have p: "\<forall>p\<in>set ?grid. length p = length (b # bs) \<and> in_bounds (b # bs) p"
      using g(3) d by (auto simp: in_bounds_def)
    have s: "df @ [(snd b - fst b) / (of_int (sint n) + 1)] =
             rev (map (\<lambda>(b, n). (snd b - fst b) / (of_int (sint n) + 1)) (zip (b # bs) n_pts))"
      by (simp add: g(4) n_pts)
    from r c p s show ?thesis by blast
  qed
qed

lemma recursive_grid_example:
  "recursive_grid [(0, 1), (0, 10)] [2, 4] =
     Inr ([[1 / 3, 2], [1 / 3, 4], [1 / 3, 6], [1 / 3, 8],
           [2 / 3, 2], [2 / 3, 4], [2 / 3, 6], [2 / 3, 8]], [2, 1 / 3])"
  by (simp add: np_linspace_def slice_interior_def upt_rec)

text \<open>
  C3, as claimed, fails: the spacing of the first axis is appended after the spacings of
  the later axes, so the list of spacings is in reverse axis order; a count below 2
  raises IndexError at \<^verbatim>\<open>d[1]-d[0]\<close>; and for the count \<open>2\<^sup>6\<^sup>3 - 2\<close> the 64-bit sum
  \<^verbatim>\<open>n_pts[0]+2\<close> wraps to a negative number, which \<^verbatim>\<open>np.linspace\<close> refuses.
\<close>

theorem spacings_axis_order_counterexample:
  "recursive_grid [(0, 1), (0, 10)] [2, 4] =
     Inr ([[1 / 3, 2], [1 / 3, 4], [1 / 3, 6], [1 / 3, 8],
           [2 / 3, 2], [2 / 3, 4], [2 / 3, 6], [2 / 3, 8]], [2, 1 / 3])
   \<and> [2, 1 / 3 :: real] ! 0 \<noteq> (1 - 0) / (2 + 1)
   \<and> recursive_grid [(0, 1)] [1] = Inl IndexError
   \<and> recursive_grid [(0, 1)] [9223372036854775806] =
       Inl (ValueError ''Number of samples must be non-negative'')"
  using recursive_grid_example
  by (simp add: np_linspace_def slice_interior_def upt_rec)

text \<open>
  C3, amended: for bounds with \<open>min < max\<close> in each of \<open>D \<ge> 1\<close> dimensions and one count
  per dimension, each at least 2 and at most \<open>2\<^sup>6\<^sup>3 - 3\<close> (so that the 64-bit sum
  \<^verbatim>\<open>n_pts[0]+2\<close> does not wrap), \<open>recursive_grid\<close> returns exactly the product of the
  counts points, every point has \<open>D\<close> coordinates, each strictly inside its bounds, and
  the spacings come in reverse axis order: the spacing \<open>(max\<^sub>i - min\<^sub>i) / (counts\<^sub>i + 1)\<close>
  of axis \<open>i\<close> is at position \<open>D - 1 - i\<close>.
\<close>

theorem recursive_grid_interior_points:
  fixes n_pts :: "int64 list"
  assumes "bounds \<noteq> []" "length n_pts = length bounds"
    and "\<forall>b\<in>set bounds. fst b < snd b"
    and "\<forall>n\<in>set n_pts. 2 \<le> sint n \<and> sint n \<le> 2 ^ 63 - 3"
  shows "\<exists>grid diff. recursive_grid bounds n_pts = Inr (grid, diff)
           \<and> int (length grid) = prod_list (map sint n_pts)
           \<and> (\<forall>p\<in>set grid. length p = length bounds
                 \<and> (\<forall>i<length bounds. fst (bounds ! i) < p ! i \<and> p ! i < snd (bounds ! i)))
           \<and> length diff = length bounds
           \<and> (\<forall>i<length bounds. diff ! (length bounds - 1 - i) =
                 (snd (bounds ! i) - fst (bounds ! i)) / (of_int (sint (n_pts ! i)) + 1))"
proof -
  from recursive_grid_shape [OF assms] obtain grid diff where
    g: "recursive_grid bounds n_pts = Inr (grid, diff)"
      "int (length grid) = prod_list (map sint n_pts)"
      "\<forall>p\<in>set grid. length p = length bounds \<and> in_bounds bounds p"
      "diff = rev (map (\<lambda>(b, n). (snd b - fst b) / (of_int (sint n) + 1)) (zip bounds n_pts))"
    by blast
  have p: "\<forall>p\<in>set grid. length p = length bounds
             \<and> (\<forall>i<length bounds. fst (bounds ! i) < p ! i \<and> p ! i < snd (bounds ! i))"
    using g(3) by (auto simp: in_bounds_def list_all_length)
  have l: "length diff = length bounds" using g(4) assms(2) by simp
  have d: "diff ! (length bounds - 1 - i) =
             (snd (bounds ! i) - fst (bounds ! i)) / (of_int (sint (n_pts ! i)) + 1)"
    if "i < length bounds" for i
  proof -
    let ?sp = "map (\<lambda>(b, n). (snd b - fst b) / (of_int (sint n) + 1)) (zip bounds n_pts)"
    have len: "length ?sp = length bounds" using assms(2) by simp
    have "length bounds - 1 - i < length ?sp" using that len by simp
    then have "rev ?sp ! (length bounds - 1 - i) = ?sp ! (length ?sp - Suc (length bounds - 1 - i))"
      by (rule rev_nth)
    also have "length ?sp - Suc (length bounds - 1 - i) = i" using that len by simp
    also have "?sp ! i = (snd (bounds ! i) - fst (bounds ! i)) / (of_int (sint (n_pts ! i)) + 1)"
      using that assms(2) by simp
    finally show ?thesis unfolding g(4) .
  qed
  from g(1) g(2) p l d show ?thesis by blast
qed

theorem recursive_grid_interior_points_witness:
  "recursive_grid [(0, 1), (0, 10)] [2, 4] =
     Inr ([[1 / 3, 2], [1 / 3, 4], [1 / 3, 6], [1 / 3, 8],
           [2 / 3, 2], [2 / 3, 4], [2 / 3, 6], [2 / 3, 8]], [2, 1 / 3])
   \<and> [2, 1 / 3 :: real] ! (length [(0 :: real, 1 :: real), (0, 10)] - 1 - 0) = (1 - 0) / (2 + 1)
   \<and> [2, 1 / 3 :: real] ! (length [(0 :: real, 1 :: real), (0, 10)] - 1 - 1) = (10 - 0) / (4 + 1)"
proof -
  have a: "[(0 :: real, 1 :: real), (0, 10)] \<noteq> []"
    and b: "length [2, 4 :: int64] = length [(0 :: real, 1 :: real), (0, 10)]"
    and c: "\<forall>b\<in>set [(0 :: real, 1 :: real), (0, 10)]. fst b < snd b"
    and d: "\<forall>n\<in>set [2, 4 :: int64]. 2 \<le> sint n \<and> sint n \<le> 2 ^ 63 - 3"
    by simp_all
  from recursive_grid_interior_points [OF a b c d] obtain grid diff where
    g: "recursive_grid [(0, 1), (0, 10)] [2, 4] = Inr (grid, diff)"
    and s: "\<forall>i<length [(0 :: real, 1 :: real), (0, 10)].
          diff ! (length [(0 :: real, 1 :: real), (0, 10)] - 1 - i) =
            (snd ([(0 :: real, 1 :: real), (0, 10)] ! i) - fst ([(0 :: real, 1 :: real), (0, 10)] ! i))
              / (of_int (sint ([2, 4 :: int64] ! i)) + 1)"
    by blast
  from g have e: "diff = [2, 1 / 3]" unfolding recursive_grid_example by simp
  from s have "diff ! (length [(0 :: real, 1 :: real), (0, 10)] - 1 - 0) = (1 - 0) / (2 + 1)"
    and "diff ! (length [(0 :: real, 1 :: real), (0, 10)] - 1 - 1) = (10 - 0) / (4 + 1)"
    by auto
  then show ?thesis unfolding e using recursive_grid_example by blast
qed

section \<open>Reconstruction runs and the sample array\<close>

lemma one_run_samples:
  "one_run est shuffle ei st = Inr st' \<Longrightarrow> st_samples st' = fst (shuffle (st_rng st) (st_samples st))"
  by (auto simp: one_run_def Let_def split: if_splits sum.splits)

lemma reconstruct_mset:
  assumes "\<And>g xs. mset (fst (shuffle g xs)) = mset xs"
  shows "reconstruct est shuffle ei n st = Inr st' \<Longrightarrow> mset (st_samples st') = mset (st_samples st)"
proof (induction n arbitrary: st)
  case 0
  then show ?case by simp
next
  case (Suc n)
  then obtain st1 where a: "one_run est shuffle ei st = Inr st1"
    and b: "reconstruct est shuffle ei n st1 = Inr st'"
    by (auto split: sum.splits)
  from Suc.IH [OF b] one_run_samples [OF a] assms show ?case by simp
qed

lemma reversed_example:
  "reconstruct counting_estimator reversing_shuffle 1 1
     \<lparr>st_samples = [[1], [2]], st_mix = 0, st_rng = (), st_draws = [], st_entropy = [],
      st_n_eval_S = []\<rparr> =
   Inr \<lparr>st_samples = [[2], [1]], st_mix = 2, st_rng = (), st_draws = [2], st_entropy = [[1, 2]],
        st_n_eval_S = [0, 1]\<rparr>"
  by (simp add: numeral_2_eq_2 one_run_def counting_estimator_def reversing_shuffle_def enumerate_eq_zip
      np_setitem_def upt_rec)

text \<open>
  C4, as claimed, fails: \<^verbatim>\<open>np.random.shuffle(samples)\<close> permutes the one sample array
  in place and no run copies it. After a single run whose shuffle reverses a two-element
  array, the array holds its elements in the other order.
\<close>

theorem samples_unmodified_counterexample:
  "reconstruct counting_estimator reversing_shuffle 1 1
     \<lparr>st_samples = [[1], [2]], st_mix = 0, st_rng = (), st_draws = [], st_entropy = [],
      st_n_eval_S = []\<rparr> =
   Inr \<lparr>st_samples = [[2], [1]], st_mix = 2, st_rng = (), st_draws = [2], st_entropy = [[1, 2]],
        st_n_eval_S = [0, 1]\<rparr>
   \<and> [[2], [1 :: real]] \<noteq> [[1], [2]]"
  using reversed_example by simp

text \<open>
  C4, amended: every run shuffles the shared sample array in place, starting from the
  order the previous run left; since a shuffle is a permutation, after any number of
  completed runs the array holds the same elements with the same multiplicities as
  before, in an order that may differ.
\<close>

theorem samples_permuted_in_place:
  assumes "\<forall>g xs. mset (fst (shuffle g xs)) = mset xs"
    and "reconstruct est shuffle ei n st = Inr st'"
  shows "mset (st_samples st') = mset (st_samples st)
       \<and> (\<forall>st1. one_run est shuffle ei st = Inr st1 \<longrightarrow>
             st_samples st1 = fst (shuffle (st_rng st) (st_samples st)))"
  using reconstruct_mset [of shuffle est ei n st st'] one_run_samples [of est shuffle ei st] assms
  by blast

theorem samples_permuted_in_place_witness:
  "mset [[2], [1 :: real]] = mset [[1], [2]]
   \<and> reconstruct counting_estimator reversing_shuffle 1 1
     \<lparr>st_samples = [[1], [2]], st_mix = 0, st_rng = (), st_draws = [], st_entropy = [],
      st_n_eval_S = []\<rparr> =
   Inr \<lparr>st_samples = [[2], [1]], st_mix = 2, st_rng = (), st_draws = [2], st_entropy = [[1, 2]],
        st_n_eval_S = [0, 1]\<rparr>"
proof -
  have p: "\<forall>g xs. mset (fst (reversing_shuffle g xs)) = mset xs"
    by (simp add: reversing_shuffle_def)
  from samples_permuted_in_place [OF p reversed_example]
  have "mset [[2], [1 :: real]] = mset [[1], [2]]" by simp
  with reversed_example show ?thesis by (intro conjI)
qed

section \<open>Rejection sampling: what the loop returns\<close>











lemma stuck_uniform_contract:
  "\<forall>g a b m. a < b \<longrightarrow> (\<forall>x\<in>set (fst (stuck_uniform g a b m)). a \<le> x \<and> x < b)"
  by (auto simp: stuck_uniform_def)








end
